theory Spec2Isabelle
  imports Main "HOL-Library.AList"
begin

section \<open>The GPML translator of GraphSpace (graphs/util/gpml\_util\_interface.py)\<close>

text \<open>
  The translator reads a pathway diagram in the GPML dialect of XML and builds a
  NetworkX directed graph from it: Groups, Shapes, DataNodes and Labels become nodes,
  Interactions become edges. The embedding below follows the Python function by function.
  What Python does beyond returning a value is written out:
  \<^item> an exception that the code does not catch is a value \<open>Inl e\<close>;
  \<^item> the error records \<open>{"Error": msg}\<close> that the code returns in place of the graph are
    the constructor \<open>ErrorDict msg\<close>;
  \<^item> the graph object is mutated in place by every function; here each function returns
    the graph after its mutations;
  \<^item> a \<open>for\<close> loop with \<open>return\<close> statements in its body is the combinator \<open>for_each\<close>.
  The XML reader (\<open>ET.fromstring\<close>) and the JSON writer (\<open>json.dumps\<close>) are not part of the
  model: the translator starts from the element tree and ends with the list of layout
  entries. Dictionaries are iterated in insertion order.
\<close>

subsection \<open>Python values, exceptions, element trees\<close>

datatype pyval = Str string | Num int | GpmlKeyword string

datatype exn = KeyError string | ValueError

type_synonym attrs = "string \<rightharpoonup> string"

datatype xml = Element (tag: string) (attrib: attrs) (children: "xml list")

definition GPML :: string where
  "GPML = ''{http://pathvisio.org/GPML/2013a}''"

definition findall :: "xml \<Rightarrow> string \<Rightarrow> xml list" where
  "findall e name = filter (\<lambda>c. tag c = name) (children e)"

definition lower_char :: "char \<Rightarrow> char" where
  "lower_char c =
     (if (65::nat) \<le> of_char c \<and> of_char c \<le> (90::nat)
      then char_of (of_char c + (32::nat)) else c)"

definition lower :: "string \<Rightarrow> string" where
  "lower s = map lower_char s"

subsection \<open>The graph: \<open>nx.DiGraph\<close>\<close>

text \<open>
  \<open>G = nx.DiGraph(directed=True)\<close>: a NetworkX directed graph keeps a dictionary from node
  identity to the node's attribute dictionary, and an adjacency dictionary keyed by the
  ordered pair of endpoints, so that an ordered pair is adjacent or not: there are no
  parallel edges in a \<open>DiGraph\<close>. \<open>n in G\<close> is membership among the nodes.
\<close>

type_synonym style = "string \<rightharpoonup> pyval"

record graph =
  node :: "(string \<times> style) list"
  edge :: "(string \<times> string) list"

definition DiGraph :: graph where
  "DiGraph = \<lparr>node = [], edge = []\<rparr>"

definition has_node :: "graph \<Rightarrow> string \<Rightarrow> bool" where
  "has_node G n = (map_of (node G) n \<noteq> None)"

definition node_ids :: "graph \<Rightarrow> string set" where
  "node_ids G = fst ` set (node G)"

definition node_attr :: "graph \<Rightarrow> string \<Rightarrow> string \<Rightarrow> pyval option" where
  "node_attr G n k = (case map_of (node G) n of None \<Rightarrow> None | Some a \<Rightarrow> a k)"

text \<open>
  What a function hands back in place of the graph: the graph itself, or an error record.
  The test \<open>'Error' in G\<close> of the source is key membership on an error record and node
  membership on a graph.
\<close>

datatype gval = ErrorDict string | Graph graph

fun Error_in :: "gval \<Rightarrow> bool" where
  "Error_in (ErrorDict msg) = True"
| "Error_in (Graph G) = has_node G ''Error''"

subsection \<open>The graphspace interface\<close>

text \<open>
  Modelled from the spec: the module \<open>graphspace_interface\<close> that the translator imports is
  not among the sources. Its operations are the ones the data model of the specification
  requires of the graph: add a node with initial styling, attach or replace a keyed style
  property on a node, add node-to-node adjacency, add a parent relation between two nodes.
  The keys \<open>x\<close>, \<open>y\<close> and \<open>group_id\<close> are the ones the translator itself reads back.
  \<open>add_node\<close> on an identity that is already a node keeps the node and overlays the
  styling; \<open>add_edge\<close> is \<open>G.add_edge\<close> of the \<open>DiGraph\<close>: it makes the ordered pair adjacent
  and adds an endpoint that is not yet a node as a node without attributes.
\<close>

definition add_node :: "graph \<Rightarrow> string \<Rightarrow> (string \<times> pyval) list \<Rightarrow> graph" where
  "add_node G node_id styling =
     G\<lparr>node := AList.update node_id
         ((case map_of (node G) node_id of None \<Rightarrow> Map.empty | Some a \<Rightarrow> a) ++ map_of styling)
         (node G)\<rparr>"

text \<open>Modelled from the spec: attach or replace one keyed style property of a node.\<close>

definition set_node_property :: "graph \<Rightarrow> string \<Rightarrow> string \<Rightarrow> pyval \<Rightarrow> graph" where
  "set_node_property G node_id k v =
     G\<lparr>node := AList.map_entry node_id (\<lambda>a. a(k \<mapsto> v)) (node G)\<rparr>"

text \<open>Modelled from the spec: the style setters of the interface, one key each.\<close>

definition add_node_x_coordinate :: "graph \<Rightarrow> string \<Rightarrow> string \<Rightarrow> graph" where
  "add_node_x_coordinate G node_id v = set_node_property G node_id ''x'' (Str v)"

definition add_node_y_coordinate :: "graph \<Rightarrow> string \<Rightarrow> string \<Rightarrow> graph" where
  "add_node_y_coordinate G node_id v = set_node_property G node_id ''y'' (Str v)"

definition add_node_height :: "graph \<Rightarrow> string \<Rightarrow> string \<Rightarrow> graph" where
  "add_node_height G node_id v = set_node_property G node_id ''height'' (Str v)"

definition add_node_width :: "graph \<Rightarrow> string \<Rightarrow> string \<Rightarrow> graph" where
  "add_node_width G node_id v = set_node_property G node_id ''width'' (Str v)"

definition add_node_horizontal_alignment :: "graph \<Rightarrow> string \<Rightarrow> string \<Rightarrow> graph" where
  "add_node_horizontal_alignment G node_id v =
     set_node_property G node_id ''text_halign'' (GpmlKeyword v)"

definition add_node_vertical_alignment :: "graph \<Rightarrow> string \<Rightarrow> string \<Rightarrow> graph" where
  "add_node_vertical_alignment G node_id v =
     set_node_property G node_id ''text_valign'' (GpmlKeyword v)"

definition add_node_label :: "graph \<Rightarrow> string \<Rightarrow> string \<Rightarrow> graph" where
  "add_node_label G node_id v = set_node_property G node_id ''content'' (Str v)"

definition add_node_fontsize :: "graph \<Rightarrow> string \<Rightarrow> string \<Rightarrow> graph" where
  "add_node_fontsize G node_id v = set_node_property G node_id ''font_size'' (Str v)"

definition add_node_border_width :: "graph \<Rightarrow> string \<Rightarrow> pyval \<Rightarrow> graph" where
  "add_node_border_width G node_id v = set_node_property G node_id ''border_width'' v"

definition add_node_border_color :: "graph \<Rightarrow> string \<Rightarrow> string \<Rightarrow> graph" where
  "add_node_border_color G node_id v = set_node_property G node_id ''border_color'' (Str v)"

definition add_node_border_style :: "graph \<Rightarrow> string \<Rightarrow> string \<Rightarrow> graph" where
  "add_node_border_style G node_id v = set_node_property G node_id ''border_style'' (Str v)"

definition add_node_color :: "graph \<Rightarrow> string \<Rightarrow> string \<Rightarrow> graph" where
  "add_node_color G node_id v = set_node_property G node_id ''background_color'' (Str v)"

definition add_node_background_opacity :: "graph \<Rightarrow> string \<Rightarrow> int \<Rightarrow> graph" where
  "add_node_background_opacity G node_id v =
     set_node_property G node_id ''background_opacity'' (Num v)"

definition add_node_shape :: "graph \<Rightarrow> string \<Rightarrow> string \<Rightarrow> graph" where
  "add_node_shape G node_id v = set_node_property G node_id ''shape'' (Str v)"

definition add_node_group_id :: "graph \<Rightarrow> string \<Rightarrow> string \<Rightarrow> graph" where
  "add_node_group_id G node_id v = set_node_property G node_id ''group_id'' (Str v)"

definition add_node_parent :: "graph \<Rightarrow> string \<Rightarrow> string \<Rightarrow> graph" where
  "add_node_parent G node_id parent = set_node_property G node_id ''parent'' (Str parent)"

text \<open>Modelled from the spec: node-to-node adjacency on the \<open>DiGraph\<close>.\<close>

definition ensure_node :: "(string \<times> style) list \<Rightarrow> string \<Rightarrow> (string \<times> style) list" where
  "ensure_node ns n = (if map_of ns n = None then ns @ [(n, Map.empty)] else ns)"

definition add_edge :: "graph \<Rightarrow> string \<Rightarrow> string \<Rightarrow> graph" where
  "add_edge G source target =
     G\<lparr>node := ensure_node (ensure_node (node G) source) target,
       edge := (if (source, target) \<in> set (edge G) then edge G
                else edge G @ [(source, target)])\<rparr>"

subsection \<open>Loops with early return\<close>

text \<open>
  One pass of a loop body raises, returns from the enclosing function, or falls through
  to the next iteration with the state it has built.
\<close>

datatype 's flow = Raise exn | Return gval | Next 's

fun for_each :: "('s \<Rightarrow> 'a \<Rightarrow> 's flow) \<Rightarrow> 's \<Rightarrow> 'a list \<Rightarrow> 's flow" where
  "for_each body s [] = Next s"
| "for_each body s (x # xs) =
     (case body s x of
        Raise e \<Rightarrow> Raise e
      | Return r \<Rightarrow> Return r
      | Next s' \<Rightarrow> for_each body s' xs)"

text \<open>Every parser ends with \<open>return G\<close> after its loop.\<close>

fun return_G :: "graph flow \<Rightarrow> exn + gval" where
  "return_G (Raise e) = Inl e"
| "return_G (Return r) = Inr r"
| "return_G (Next G) = Inr (Graph G)"

subsection \<open>\<open>_extract_attributes\<close>\<close>

definition extract_attributes :: "xml list \<Rightarrow> attrs list" where
  "extract_attributes nodes =
     map (\<lambda>n. foldl (++) (Map.empty ++ attrib n) (map attrib (children n))) nodes"

subsection \<open>\<open>parse_groups\<close>\<close>

definition parse_groups_body :: "graph \<Rightarrow> xml \<Rightarrow> graph flow" where
  "parse_groups_body G group_el =
     (case attrib group_el ''GraphId'' of
        None \<Rightarrow> Return (ErrorDict ''GPML file must contain GraphId for all group elements!'')
      | Some graph_id \<Rightarrow>
          (case attrib group_el ''GroupId'' of
             None \<Rightarrow> Raise (KeyError ''GroupId'')
           | Some group_id \<Rightarrow>
               Next (add_node_border_color
                      (add_node_color
                        (add_node_group_id (add_node G graph_id []) graph_id group_id)
                        graph_id ''white'')
                      graph_id ''black'')))"

definition parse_groups :: "graph \<Rightarrow> xml \<Rightarrow> exn + gval" where
  "parse_groups G graph_gpml =
     return_G (for_each parse_groups_body G (findall graph_gpml (GPML @ ''Group'')))"

subsection \<open>\<open>update_node_graphics\<close>\<close>

text \<open>
  Every branch starts by reading \<open>node['GraphId']\<close>, so a mapping without that key raises
  before the graph is touched; the callers test for the key first. The error branch
  returns before any mutation.
\<close>

text \<open>
  \<open>if 'Height' in node: interface.add_node_height(G, node['GraphId'], node['Height'])\<close> and
  its siblings: a setter that runs when the key is in the mapping.
\<close>

definition if_present :: "attrs \<Rightarrow> string \<Rightarrow> (graph \<Rightarrow> string \<Rightarrow> graph) \<Rightarrow> graph \<Rightarrow> graph" where
  "if_present nd k setter G = (case nd k of None \<Rightarrow> G | Some v \<Rightarrow> setter G v)"

text \<open>The statements after the coordinates: the optional styles and the two defaults.\<close>

definition update_node_styles :: "graph \<Rightarrow> string \<Rightarrow> attrs \<Rightarrow> graph" where
  "update_node_styles G gid nd =
     (let G = if_present nd ''Height'' (\<lambda>G v. add_node_height G gid v) G;
          G = if_present nd ''Width'' (\<lambda>G v. add_node_width G gid v) G;
          G = if_present nd ''Align'' (\<lambda>G v. add_node_horizontal_alignment G gid v) G;
          G = if_present nd ''Valign'' (\<lambda>G v. add_node_vertical_alignment G gid v) G;
          G = if_present nd ''TextLabel'' (\<lambda>G v. add_node_label G gid v) G;
          G = if_present nd ''FontSize'' (\<lambda>G v. add_node_fontsize G gid v) G;
          G = if_present nd ''LineThickness''
                (\<lambda>G v. add_node_border_width G gid (Str v)) G;
          G = if_present nd ''Color'' (\<lambda>G v. add_node_border_color G gid (''#'' @ v)) G;
          G = (case nd ''FillColor'' of
                 Some v \<Rightarrow> add_node_color G gid (''#'' @ v)
               | None \<Rightarrow> add_node_color G gid ''white'')
      in add_node_background_opacity G gid 0)"

definition update_node_graphics :: "graph \<Rightarrow> string \<Rightarrow> attrs \<Rightarrow> exn + gval" where
  "update_node_graphics G node_id nd =
     (case nd ''GraphId'' of
        None \<Rightarrow> Inl (KeyError ''GraphId'')
      | Some gid \<Rightarrow>
          (case (nd ''CenterX'', nd ''CenterY'') of
             (Some cx, Some cy) \<Rightarrow>
               Inr (Graph (update_node_styles
                             (add_node_y_coordinate (add_node_x_coordinate G gid cx) gid cy)
                             gid nd))
           | _ \<Rightarrow>
               Inr (ErrorDict (''GPML file must contain X and Y coordinates '' @
                               ''of all the node type elements! Value for '' @
                               gid @ '' missing''))))"

subsection \<open>\<open>parse_shapes\<close>\<close>

definition double_line_property :: "graph \<Rightarrow> string \<Rightarrow> attrs \<Rightarrow> graph" where
  "double_line_property G gid nd =
     (if nd ''key'' = Some ''org.pathvisio.DoubleLineProperty''
      then add_node_border_style G gid ''double'' else G)"

definition parse_shapes_body :: "graph \<Rightarrow> attrs \<Rightarrow> graph flow" where
  "parse_shapes_body G nd =
     (case nd ''GraphId'' of
        None \<Rightarrow> Return (ErrorDict ''GPML file must contain GraphId for all shape elements!'')
      | Some gid \<Rightarrow>
          (case update_node_graphics (add_node G gid []) gid nd of
             Inl e \<Rightarrow> Raise e
           | Inr (ErrorDict msg) \<Rightarrow> Return (ErrorDict msg)
           | Inr (Graph G) \<Rightarrow>
               if has_node G ''Error'' then Return (Graph G)
               else
                 (case nd ''ShapeType'' of
                    Some st \<Rightarrow>
                      (let shape_type = lower st in
                       if shape_type = ''brace'' \<or> shape_type = ''arc''
                       then Next (double_line_property
                                   (add_node_shape G gid ''rectangle'') gid nd)
                       else if shape_type = ''oval''
                       then Next (double_line_property
                                   (add_node_shape G gid ''ellipse'') gid nd)
                       else if shape_type = ''roundedrectangle''
                       then Next (double_line_property
                                   (add_node_shape G gid ''roundrectangle'') gid nd)
                       else if shape_type = ''mitochondria''
                       then Next (double_line_property
                                   (add_node_shape G gid ''ellipse'') gid nd)
                       else if shape_type \<in> set [''mim-degradation'', ''none'',
                                                  ''mim-phosphorylated'']
                       then Return (ErrorDict (''The shape '' @ shape_type @
                                               '' is not supported''))
                       else Next (double_line_property
                                   (add_node_shape G gid shape_type) gid nd))
                  | None \<Rightarrow>
                      Next (double_line_property
                             (add_node_shape G gid ''rectangle'') gid nd))))"

definition parse_shapes :: "graph \<Rightarrow> xml \<Rightarrow> exn + gval" where
  "parse_shapes G graph_gpml =
     return_G (for_each parse_shapes_body G
                 (extract_attributes (findall graph_gpml (GPML @ ''Shape''))))"

subsection \<open>\<open>parse_datanodes\<close>\<close>

text \<open>
  The scan for the group runs over all nodes of the graph and sets the parent at every
  node whose \<open>group_id\<close> equals the reference, so the last match in iteration order stays.
\<close>

definition find_parent :: "graph \<Rightarrow> string \<Rightarrow> string \<Rightarrow> graph" where
  "find_parent G gid group_ref =
     foldl (\<lambda>G' (n, a). if a ''group_id'' = Some (Str group_ref)
                         then add_node_parent G' gid n else G')
           G (node G)"

definition parse_datanodes_body :: "graph \<Rightarrow> attrs \<Rightarrow> graph flow" where
  "parse_datanodes_body G nd =
     (case nd ''GraphId'' of
        None \<Rightarrow> Return (ErrorDict ''GPML file must contain GraphId for all datanode elements!'')
      | Some gid \<Rightarrow>
          (case update_node_graphics
                  (add_node G gid [(''shape'', Str ''rectangle''), (''border_width'', Num 2)])
                  gid nd of
             Inl e \<Rightarrow> Raise e
           | Inr (ErrorDict msg) \<Rightarrow> Return (ErrorDict msg)
           | Inr (Graph G) \<Rightarrow>
               if has_node G ''Error'' then Return (Graph G)
               else
                 (let G = add_node_color G gid ''white'';
                      G = add_node_background_opacity G gid 0
                  in case nd ''GroupRef'' of
                       None \<Rightarrow> Next G
                     | Some group_ref \<Rightarrow> Next (find_parent G gid group_ref))))"

definition parse_datanodes :: "graph \<Rightarrow> xml \<Rightarrow> exn + gval" where
  "parse_datanodes G graph_gpml =
     return_G (for_each parse_datanodes_body G
                 (extract_attributes (findall graph_gpml (GPML @ ''DataNode''))))"

subsection \<open>\<open>parse_labels\<close>\<close>

text \<open>
  Here the source calls \<open>update_node_graphics(G, ...)\<close> and drops what it returns. \<open>G\<close> stays
  the graph object: mutated in place when the coordinates are there, untouched when they
  are missing (the error record is built and thrown away). The test \<open>'Error' in G\<close> that
  follows is therefore always a test on the graph.
\<close>

definition parse_labels_body :: "graph \<Rightarrow> attrs \<Rightarrow> graph flow" where
  "parse_labels_body G nd =
     (case nd ''GraphId'' of
        None \<Rightarrow> Return (ErrorDict ''GPML file must contain GraphId for all lable elements!'')
      | Some gid \<Rightarrow>
          (let G = add_node G gid [(''border_color'', Str ''#FFFFFF'')] in
           case update_node_graphics G gid nd of
             Inl e \<Rightarrow> Raise e
           | Inr r \<Rightarrow>
               (let G = (case r of Graph G' \<Rightarrow> G' | ErrorDict msg \<Rightarrow> G) in
                if has_node G ''Error'' then Return (Graph G) else Next G)))"

definition parse_labels :: "graph \<Rightarrow> xml \<Rightarrow> exn + gval" where
  "parse_labels G graph_gpml =
     return_G (for_each parse_labels_body G
                 (extract_attributes (findall graph_gpml (GPML @ ''Label''))))"

subsection \<open>\<open>parse_interactions\<close>\<close>

text \<open>
  First loop: the attributes of the Interaction and of its nested layers are flattened
  into \<open>temp_edge\<close>, and the attributes of the children of every nested layer are collected
  in \<open>list_of_points\<close>. The key \<open>points\<close> is assigned inside the loop over the nested layers:
  with no nested layer it is never assigned, and \<open>edge['points']\<close> later reads whatever the
  XML attributes gave under that name, a string or nothing. A flattened Interaction is
  the pair of its string-valued entries and of the list, when assigned.
\<close>

definition extract_edge :: "xml \<Rightarrow> attrs \<times> attrs list option" where
  "extract_edge e =
     (foldl (++) (Map.empty ++ attrib e) (map attrib (children e)),
      if children e = [] then None
      else Some (concat (map (\<lambda>nested. map attrib (children nested)) (children e))))"

text \<open>
  Second loop: \<open>for point in edge['points']\<close> runs before the test for GraphId. Iterating a
  string yields its characters.
\<close>

datatype point = PointAttrib attrs | PointChar char

definition edge_points :: "attrs \<times> attrs list option \<Rightarrow> exn + point list" where
  "edge_points ed =
     (case snd ed of
        Some ps \<Rightarrow> Inr (map PointAttrib ps)
      | None \<Rightarrow>
          (case fst ed ''points'' of
             None \<Rightarrow> Inl (KeyError ''points'')
           | Some s \<Rightarrow> Inr (map PointChar s)))"

definition collect_edges_body ::
  "(string \<times> point list) list \<Rightarrow> attrs \<times> attrs list option \<Rightarrow> (string \<times> point list) list flow"
where
  "collect_edges_body edges ed =
     (case edge_points ed of
        Inl e \<Rightarrow> Raise e
      | Inr temp \<Rightarrow>
          (case fst ed ''GraphId'' of
             Some gid \<Rightarrow> Next (AList.update gid temp edges)
           | None \<Rightarrow> Return (ErrorDict
                        ''GPML file must contain GraphId for all interaction elements!'')))"

text \<open>
  Third loop. \<open>point['GraphRef']\<close> on a character raises inside the \<open>try\<close>, and
  \<open>'GraphRef' in point\<close> on a character is false: a character carries no reference.
\<close>

fun GraphRef :: "point \<Rightarrow> string option" where
  "GraphRef (PointAttrib a) = a ''GraphRef''"
| "GraphRef (PointChar c) = None"

definition GraphRef_missing :: "string \<Rightarrow> gval" where
  "GraphRef_missing edge_id =
     ErrorDict (''GPML file must contain GraphRef for '' @
                ''all interaction elements! Value for '' @ edge_id @ '' missing'')"

fun parse_interactions_body :: "graph \<Rightarrow> string \<times> point list \<Rightarrow> graph flow" where
  "parse_interactions_body G (edge_id, [p0, p1]) =
     (case (GraphRef p0, GraphRef p1) of
        (Some a, Some b) \<Rightarrow> Next (add_edge G a b)
      | _ \<Rightarrow> Return (GraphRef_missing edge_id))"
| "parse_interactions_body G (edge_id, [p0, p1, p2]) =
     (case (GraphRef p0, GraphRef p1, GraphRef p2) of
        (Some a, Some b, _) \<Rightarrow> Next (add_edge G a b)
      | (Some a, None, Some c) \<Rightarrow> Next (add_edge G a c)
      | (None, Some b, Some c) \<Rightarrow> Next (add_edge G b c)
      | _ \<Rightarrow> Return (GraphRef_missing edge_id))"
| "parse_interactions_body G (edge_id, ps) = Next G"

definition parse_interactions :: "graph \<Rightarrow> xml \<Rightarrow> exn + gval" where
  "parse_interactions G graph_gpml =
     (case for_each collect_edges_body []
             (map extract_edge (findall graph_gpml (GPML @ ''Interaction''))) of
        Raise e \<Rightarrow> Inl e
      | Return r \<Rightarrow> Inr r
      | Next edges \<Rightarrow> return_G (for_each parse_interactions_body G edges))"

subsection \<open>\<open>set_gpml_layout\<close>\<close>

text \<open>
  \<open>float\<close> is a parameter of the model: \<open>fl v = None\<close> stands for the \<open>ValueError\<close> that Python
  raises on a value that is not a number.
\<close>

fun layout_entries ::
  "(pyval \<Rightarrow> 'r option) \<Rightarrow> (string \<times> style) list \<Rightarrow> exn + (string \<times> 'r \<times> 'r) list" where
  "layout_entries fl [] = Inr []"
| "layout_entries fl ((n, a) # rest) =
     (case (a ''x'', a ''y'') of
        (Some vx, Some vy) \<Rightarrow>
          (case (fl vx, fl vy) of
             (Some x, Some y) \<Rightarrow>
               (case layout_entries fl rest of
                  Inl e \<Rightarrow> Inl e
                | Inr default_layout \<Rightarrow> Inr ((n, x, y) # default_layout))
           | _ \<Rightarrow> Inl ValueError)
      | _ \<Rightarrow> layout_entries fl rest)"

definition set_gpml_layout ::
  "(pyval \<Rightarrow> 'r option) \<Rightarrow> graph \<Rightarrow> exn + (string \<times> 'r \<times> 'r) list" where
  "set_gpml_layout fl G = layout_entries fl (node G)"

subsection \<open>\<open>parse_gpml\<close>\<close>

record metadata =
  description :: string
  title :: string
  tags :: "string list"

record document =
  doc_metadata :: metadata
  doc_graph :: graph

text \<open>
  Modelled from the spec: \<open>convertNXToDict\<close> of the interface packs the node and edge
  collections of the graph with the metadata object.
\<close>

definition convertNXToDict :: "graph \<Rightarrow> metadata \<Rightarrow> document" where
  "convertNXToDict G md = \<lparr>doc_metadata = md, doc_graph = G\<rparr>"

text \<open>
  The first component of what the driver returns is \<open>G\<close> as the failed stage left it
  (\<open>return G, "", ""\<close>) or the converted document. The layout \<open>None\<close> is the empty string
  that stands in for the layout in the early returns.
\<close>

datatype outcome = Early gval | Json document

type_synonym 'r result = "outcome \<times> (string \<times> 'r \<times> 'r) list option \<times> string"

text \<open>One stage of the driver: \<open>G = parser(G, graph_gpml); if 'Error' in G: return G, "", ""\<close>.\<close>

definition stage ::
  "(graph \<Rightarrow> xml \<Rightarrow> exn + gval) \<Rightarrow> xml \<Rightarrow> (graph \<Rightarrow> exn + 'r result) \<Rightarrow> graph
     \<Rightarrow> exn + 'r result" where
  "stage parser graph_gpml rest G =
     (case parser G graph_gpml of
        Inl e \<Rightarrow> Inl e
      | Inr G' \<Rightarrow>
          if Error_in G' then Inr (Early G', None, [])
          else (case G' of
                  Graph g \<Rightarrow> rest g
                | ErrorDict msg \<Rightarrow> Inr (Early G', None, [])))"

definition finish ::
  "(pyval \<Rightarrow> 'r option) \<Rightarrow> xml \<Rightarrow> string \<Rightarrow> graph \<Rightarrow> exn + 'r result" where
  "finish fl graph_gpml caller_title G =
     (case set_gpml_layout fl G of
        Inl e \<Rightarrow> Inl e
      | Inr layout \<Rightarrow>
          (case attrib graph_gpml ''Name'' of
             None \<Rightarrow> Inl (KeyError ''Name'')
           | Some name \<Rightarrow>
               (let md = \<lparr>description = [],
                          title = (if name = [] then ''GPML'' else name),
                          tags = []\<rparr>;
                    t = (if caller_title = [] then title md else caller_title)
                in Inr (Json (convertNXToDict G md), Some layout, t))))"

definition parse_gpml ::
  "(pyval \<Rightarrow> 'r option) \<Rightarrow> xml \<Rightarrow> string \<Rightarrow> exn + 'r result" where
  "parse_gpml fl graph_gpml caller_title =
     stage parse_groups graph_gpml
       (stage parse_shapes graph_gpml
         (stage parse_datanodes graph_gpml
           (stage parse_labels graph_gpml
             (stage parse_interactions graph_gpml
               (finish fl graph_gpml caller_title)))))
       DiGraph"

text \<open>The translation is successful when the driver reaches its last \<open>return\<close>.\<close>

definition translates ::
  "(pyval \<Rightarrow> 'r option) \<Rightarrow> xml \<Rightarrow> string \<Rightarrow> document \<Rightarrow> (string \<times> 'r \<times> 'r) list \<Rightarrow> string \<Rightarrow> bool"
where
  "translates fl graph_gpml caller_title d layout t =
     (parse_gpml fl graph_gpml caller_title = Inr (Json d, Some layout, t))"

section \<open>Notions used in the statements\<close>

text \<open>
  \<open>touches_only n K G G'\<close>: from \<open>G\<close> to \<open>G'\<close> the nodes and their order and the edges are
  the same, and no attribute has changed except, at most, the keys \<open>K\<close> of node \<open>n\<close>.
\<close>

definition touches_only :: "string \<Rightarrow> string set \<Rightarrow> graph \<Rightarrow> graph \<Rightarrow> bool" where
  "touches_only n K G G' =
     (map fst (node G') = map fst (node G) \<and> edge G' = edge G \<and>
      (\<forall>m k. m \<noteq> n \<or> k \<notin> K \<longrightarrow> node_attr G' m k = node_attr G m k) \<and>
      (\<forall>m k. node_attr G m k \<noteq> None \<longrightarrow> node_attr G' m k \<noteq> None))"

text \<open>
  \<open>grows N K G G'\<close>: from \<open>G\<close> to \<open>G'\<close> the nodes \<open>N\<close> have been added (those that were not
  there), the edges are the same, no attribute has been removed, and no attribute has
  changed except, at most, the keys \<open>K\<close> of the nodes \<open>N\<close>.
\<close>

definition grows :: "string set \<Rightarrow> string set \<Rightarrow> graph \<Rightarrow> graph \<Rightarrow> bool" where
  "grows N K G G' =
     (node_ids G' = N \<union> node_ids G \<and> edge G' = edge G \<and>
      (\<forall>m k. m \<notin> N \<or> k \<notin> K \<longrightarrow> node_attr G' m k = node_attr G m k) \<and>
      (\<forall>m k. node_attr G m k \<noteq> None \<longrightarrow> node_attr G' m k \<noteq> None) \<and>
      (distinct (map fst (node G)) \<longrightarrow> distinct (map fst (node G'))))"

text \<open>The keys that \<open>update_node_styles\<close> may write.\<close>

definition style_keys :: "string set" where
  "style_keys = {''height'', ''width'', ''text_halign'', ''text_valign'', ''content'',
     ''font_size'', ''border_width'', ''border_color'', ''background_color'',
     ''background_opacity''}"

text \<open>The keys that \<open>update_node_graphics\<close> may write.\<close>

definition graphics_keys :: "string set" where
  "graphics_keys = {''x'', ''y''} \<union> style_keys"

text \<open>The keys that the Groups parser writes.\<close>

definition group_keys :: "string set" where
  "group_keys = {''group_id'', ''background_color'', ''border_color''}"

text \<open>The keys that the Shapes parser may write.\<close>

definition shape_keys :: "string set" where
  "shape_keys = {''shape'', ''border_style''} \<union> graphics_keys"

text \<open>The keys that the DataNodes parser may write before it looks for the group.\<close>

definition datanode_style_keys :: "string set" where
  "datanode_style_keys = {''shape''} \<union> graphics_keys"

text \<open>The keys that the DataNodes parser may write.\<close>

definition datanode_keys :: "string set" where
  "datanode_keys = {''parent''} \<union> datanode_style_keys"

text \<open>The identities that the edges of a graph connect.\<close>

definition endpoints :: "graph \<Rightarrow> string set" where
  "endpoints G = fst ` set (edge G) \<union> snd ` set (edge G)"

text \<open>The GraphId values of a list of attribute mappings.\<close>

definition GraphIds :: "attrs list \<Rightarrow> string set" where
  "GraphIds nds = {n. \<exists>nd \<in> set nds. nd ''GraphId'' = Some n}"



section \<open>Properties\<close>

subsection \<open>The interface operations\<close>

lemmas interface_defs =
  add_node_x_coordinate_def add_node_y_coordinate_def add_node_height_def
  add_node_width_def add_node_horizontal_alignment_def add_node_vertical_alignment_def
  add_node_label_def add_node_fontsize_def add_node_border_width_def
  add_node_border_color_def add_node_border_style_def add_node_color_def
  add_node_background_opacity_def add_node_shape_def add_node_group_id_def
  add_node_parent_def

lemma map_fst_map_entry [simp]: "map fst (AList.map_entry k f xs) = map fst xs"
  by (induction xs) auto

lemma has_node_iff: "has_node G n \<longleftrightarrow> n \<in> set (map fst (node G))"
  by (simp add: has_node_def map_of_eq_None_iff)

lemma node_set_node_property [simp]:
  "map fst (node (set_node_property G n k v)) = map fst (node G)"
  by (simp add: set_node_property_def)

lemma edge_set_node_property [simp]:
  "edge (set_node_property G n k v) = edge G"
  by (simp add: set_node_property_def)

lemma node_attr_set_node_property:
  "node_attr (set_node_property G n k v) m k' =
     (if m = n \<and> k' = k \<and> has_node G n then Some v else node_attr G m k')"
  by (auto simp: node_attr_def set_node_property_def map_of_map_entry has_node_def
           split: option.splits)

lemma has_node_set_node_property [simp]:
  "has_node (set_node_property G n k v) m = has_node G m"
  by (simp add: has_node_iff)

lemma node_add_node:
  "set (map fst (node (add_node G n st))) = insert n (set (map fst (node G)))"
  by (simp add: add_node_def dom_update)

lemma has_node_add_node [simp]:
  "has_node (add_node G n st) m \<longleftrightarrow> m = n \<or> has_node G m"
  by (auto simp: has_node_iff node_add_node simp del: set_map)

lemma edge_add_node [simp]: "edge (add_node G n st) = edge G"
  by (simp add: add_node_def)

lemma node_attr_add_node:
  "node_attr (add_node G n st) m k =
     (if m = n then (case map_of st k of Some v \<Rightarrow> Some v | None \<Rightarrow> node_attr G n k)
      else node_attr G m k)"
  by (auto simp: node_attr_def add_node_def update_conv' map_add_def split: option.splits)

lemma touches_only_refl: "touches_only n K G G"
  by (simp add: touches_only_def)

lemma touches_only_trans:
  "touches_only n K G G1 \<Longrightarrow> touches_only n K G1 G2 \<Longrightarrow> touches_only n K G G2"
  unfolding touches_only_def by (intro conjI) auto

lemma touches_only_mono:
  "touches_only n K G G' \<Longrightarrow> K \<subseteq> K' \<Longrightarrow> touches_only n K' G G'"
  by (auto simp: touches_only_def)

lemma touches_only_set:
  "touches_only n K G0 G \<Longrightarrow> k \<in> K \<Longrightarrow> touches_only n K G0 (set_node_property G n k v)"
  by (auto simp: touches_only_def node_attr_set_node_property)

lemma touches_only_if_present:
  "touches_only n K G0 G \<Longrightarrow>
   (\<And>G v. touches_only n K G0 G \<Longrightarrow> touches_only n K G0 (setter G v)) \<Longrightarrow>
   touches_only n K G0 (if_present nd k setter G)"
  by (simp add: if_present_def split: option.splits)


lemma update_node_styles_touches:
  "touches_only gid style_keys G (update_node_styles G gid nd)"
  unfolding update_node_styles_def Let_def interface_defs
  by (cases "nd ''FillColor''")
     (auto intro!: touches_only_set touches_only_if_present touches_only_refl
           simp: style_keys_def)

lemma update_node_graphics_Graph:
  assumes "nd ''GraphId'' = Some gid" "nd ''CenterX'' = Some cx" "nd ''CenterY'' = Some cy"
  shows "\<exists>G'. update_node_graphics G node_id nd = Inr (Graph G') \<and>
           touches_only gid (insert ''x'' (insert ''y'' style_keys)) G G' \<and>
           (has_node G gid \<longrightarrow> node_attr G' gid ''x'' = Some (Str cx) \<and>
                               node_attr G' gid ''y'' = Some (Str cy))"
proof -
  define G2 where "G2 = add_node_y_coordinate (add_node_x_coordinate G gid cx) gid cy"
  define G' where "G' = update_node_styles G2 gid nd"
  have eq: "update_node_graphics G node_id nd = Inr (Graph G')"
    by (simp add: update_node_graphics_def assms G'_def G2_def)
  have t2: "touches_only gid (insert ''x'' (insert ''y'' style_keys)) G G2"
    unfolding G2_def interface_defs
    by (intro touches_only_set touches_only_refl) simp_all
  have t3: "touches_only gid style_keys G2 G'"
    unfolding G'_def by (rule update_node_styles_touches)
  have t: "touches_only gid (insert ''x'' (insert ''y'' style_keys)) G G'"
    using t2 t3 by (blast intro: touches_only_trans touches_only_mono)
  have xy: "node_attr G' gid ''x'' = node_attr G2 gid ''x''"
           "node_attr G' gid ''y'' = node_attr G2 gid ''y''"
    using t3 by (simp_all add: touches_only_def style_keys_def)
  have "has_node G gid \<Longrightarrow> node_attr G2 gid ''x'' = Some (Str cx) \<and>
                            node_attr G2 gid ''y'' = Some (Str cy)"
    by (simp add: G2_def interface_defs node_attr_set_node_property)
  with eq t xy show ?thesis by auto
qed

lemma update_node_graphics_ErrorDict:
  assumes "nd ''GraphId'' = Some gid" "nd ''CenterX'' = None \<or> nd ''CenterY'' = None"
  shows "update_node_graphics G node_id nd =
           Inr (ErrorDict (''GPML file must contain X and Y coordinates of all the node type elements! Value for '' @ gid @ '' missing''))"
  using assms by (auto simp: update_node_graphics_def split: option.splits)


subsection \<open>Loops\<close>

lemma for_each_append:
  "for_each body s (xs @ ys) =
     (case for_each body s xs of
        Raise e \<Rightarrow> Raise e
      | Return r \<Rightarrow> Return r
      | Next s' \<Rightarrow> for_each body s' ys)"
  by (induction xs arbitrary: s) (auto split: flow.splits)

subsection \<open>Groups\<close>

lemma parse_groups_body_not_Return:
  "attrib g ''GraphId'' \<noteq> None \<Longrightarrow> parse_groups_body G g \<noteq> Return r"
  by (auto simp: parse_groups_body_def split: option.splits)

lemma parse_groups_prefix:
  "\<forall>h \<in> set pre. attrib h ''GraphId'' \<noteq> None \<Longrightarrow>
   for_each parse_groups_body G pre = Raise (KeyError ''GroupId'') \<or>
   (\<exists>G'. for_each parse_groups_body G pre = Next G')"
proof (induction pre arbitrary: G)
  case Nil
  then show ?case by simp
next
  case (Cons h pre)
  then obtain i where i: "attrib h ''GraphId'' = Some i" by auto
  show ?case
  proof (cases "attrib h ''GroupId''")
    case None
    with i show ?thesis by (simp add: parse_groups_body_def)
  next
    case (Some r)
    with i Cons show ?thesis by (simp add: parse_groups_body_def)
  qed
qed

text \<open>
  C10. A Group element that carries a GraphId attribute but no GroupId attribute makes
  \<open>parse_groups\<close> abort with the unhandled exception of the lookup
  \<open>group.attrib['GroupId']\<close>, a \<open>KeyError\<close>, and not with an error record: the Group elements
  before it carry a GraphId (a Group without one ends the function with the error record
  before this element is read), and whatever follows it is never read.
\<close>

theorem parse_groups_missing_GroupId:
  assumes "findall graph_gpml (GPML @ ''Group'') = pre @ g # post"
    and "\<forall>h \<in> set pre. attrib h ''GraphId'' \<noteq> None"
    and "attrib g ''GraphId'' = Some i"
    and "attrib g ''GroupId'' = None"
  shows "parse_groups G graph_gpml = Inl (KeyError ''GroupId'')"
proof -
  have g: "\<And>G'. for_each parse_groups_body G' (g # post) = Raise (KeyError ''GroupId'')"
    using assms(3,4) by (simp add: parse_groups_body_def)
  from parse_groups_prefix [OF assms(2), of G]
  have "for_each parse_groups_body G (pre @ g # post) = Raise (KeyError ''GroupId'')"
    unfolding for_each_append using g by (auto simp del: for_each.simps)
  then show ?thesis by (simp add: parse_groups_def assms(1))
qed

theorem parse_groups_missing_GroupId_witness:
  "parse_groups DiGraph
     (Element ''Pathway'' [''Name'' \<mapsto> ''p'']
        [Element (GPML @ ''Group'') [''GraphId'' \<mapsto> ''g1'', ''GroupId'' \<mapsto> ''r1''] [],
         Element (GPML @ ''Group'') [''GraphId'' \<mapsto> ''g2''] [],
         Element (GPML @ ''Group'') [''GroupId'' \<mapsto> ''r3''] []])
   = Inl (KeyError ''GroupId'')"
  by (rule parse_groups_missing_GroupId
        [where pre = "[Element (GPML @ ''Group'')
                         [''GraphId'' \<mapsto> ''g1'', ''GroupId'' \<mapsto> ''r1''] []]"
           and g = "Element (GPML @ ''Group'') [''GraphId'' \<mapsto> ''g2''] []"
           and post = "[Element (GPML @ ''Group'') [''GroupId'' \<mapsto> ''r3''] []]"
           and i = "''g2''"])
     (simp_all add: findall_def)

subsection \<open>Interactions\<close>







subsection \<open>Shapes\<close>




subsection \<open>One pass of each node parser\<close>

lemma has_node_ids: "has_node G n \<longleftrightarrow> n \<in> node_ids G"
  by (simp add: has_node_iff node_ids_def)

lemma grows_refl: "grows {} K G G"
  by (simp add: grows_def)

lemma grows_trans:
  "grows N1 K G G1 \<Longrightarrow> grows N2 K G1 G2 \<Longrightarrow> grows (N1 \<union> N2) K G G2"
  unfolding grows_def by (intro conjI) auto

lemma node_ids_map: "node_ids G = set (map fst (node G))"
  by (simp add: node_ids_def)

lemma node_ids_add_node: "node_ids (add_node G n st) = insert n (node_ids G)"
  using node_add_node [of G n st] by (simp add: node_ids_def)

lemma distinct_add_node:
  "distinct (map fst (node G)) \<Longrightarrow> distinct (map fst (node (add_node G n st)))"
  by (simp add: add_node_def distinct_update)

lemma grows_add_node_touches:
  assumes t: "touches_only n K (add_node G n st) G'" and st: "fst ` set st \<subseteq> K"
  shows "grows {n} K G G'"
proof -
  have "map fst (node G') = map fst (node (add_node G n st))"
    using t by (simp add: touches_only_def)
  then have "node_ids G' = node_ids (add_node G n st)"
    unfolding node_ids_map by (rule arg_cong)
  then have ids: "node_ids G' = {n} \<union> node_ids G"
    by (simp add: node_ids_add_node)
  have e: "edge G' = edge G" using t by (simp add: touches_only_def)
  have fr: "node_attr G' m k = node_attr G m k" if "m \<notin> {n} \<or> k \<notin> K" for m k
  proof -
    from that st have "m \<noteq> n \<or> map_of st k = None"
      by (auto simp: map_of_eq_None_iff)
    then have "node_attr (add_node G n st) m k = node_attr G m k"
      by (auto simp: node_attr_add_node)
    with t that show ?thesis by (simp add: touches_only_def)
  qed
  have mono: "node_attr G' m k \<noteq> None" if "node_attr G m k \<noteq> None" for m k
  proof -
    from that have "node_attr (add_node G n st) m k \<noteq> None"
      by (auto simp: node_attr_add_node split: option.splits)
    with t show ?thesis by (simp add: touches_only_def)
  qed
  have d: "distinct (map fst (node G)) \<longrightarrow> distinct (map fst (node G'))"
    using t distinct_add_node [of G n st] by (simp add: touches_only_def)
  show ?thesis unfolding grows_def using ids e fr mono d by blast
qed

lemma double_line_property_touches:
  "touches_only gid {''border_style''} G (double_line_property G gid nd)"
  by (auto simp: double_line_property_def interface_defs
           intro!: touches_only_set touches_only_refl)

lemma add_node_shape_touches:
  "touches_only gid {''shape''} G (add_node_shape G gid kw)"
  by (auto simp: interface_defs intro!: touches_only_set touches_only_refl)

lemma graphics_touches_shape:
  "touches_only gid (insert ''x'' (insert ''y'' style_keys)) G G' \<Longrightarrow>
   touches_only gid shape_keys G G'"
  by (erule touches_only_mono) (auto simp: shape_keys_def graphics_keys_def)

lemma shape_tail_touches:
  "touches_only gid shape_keys G1 (double_line_property (add_node_shape G1 gid kw) gid nd)"
  by (rule touches_only_trans
        [OF touches_only_mono [OF add_node_shape_touches]
            touches_only_mono [OF double_line_property_touches]])
     (simp_all add: shape_keys_def)

lemma shape_tail_xy:
  "k \<in> {''x'', ''y''} \<Longrightarrow>
   node_attr (double_line_property (add_node_shape G1 gid kw) gid nd) m k = node_attr G1 m k"
  by (auto simp: double_line_property_def interface_defs node_attr_set_node_property)

lemma parse_shapes_body_Next:
  assumes "parse_shapes_body G nd = Next G'"
  shows "\<exists>gid cx cy. nd ''GraphId'' = Some gid \<and> nd ''CenterX'' = Some cx \<and>
           nd ''CenterY'' = Some cy \<and> grows {gid} shape_keys G G' \<and>
           node_attr G' gid ''x'' = Some (Str cx) \<and> node_attr G' gid ''y'' = Some (Str cy)"
proof -
  from assms obtain gid where gid: "nd ''GraphId'' = Some gid"
    by (auto simp: parse_shapes_body_def split: option.splits)
  have "\<exists>cx cy. nd ''CenterX'' = Some cx \<and> nd ''CenterY'' = Some cy"
  proof (rule ccontr)
    assume "\<not> ?thesis"
    then have "nd ''CenterX'' = None \<or> nd ''CenterY'' = None" by auto
    from update_node_graphics_ErrorDict [OF gid this] assms gid show False
      by (simp add: parse_shapes_body_def)
  qed
  then obtain cx cy where c: "nd ''CenterX'' = Some cx" "nd ''CenterY'' = Some cy" by blast
  from update_node_graphics_Graph [OF gid c, of "add_node G gid []" gid]
  obtain G1 where G1: "update_node_graphics (add_node G gid []) gid nd = Inr (Graph G1)"
    and t: "touches_only gid (insert ''x'' (insert ''y'' style_keys)) (add_node G gid []) G1"
    and xy: "node_attr G1 gid ''x'' = Some (Str cx)" "node_attr G1 gid ''y'' = Some (Str cy)"
    by auto
  from assms gid G1 obtain kw where
    G': "G' = double_line_property (add_node_shape G1 gid kw) gid nd"
    by (auto simp: parse_shapes_body_def Let_def split: option.splits if_splits)
  have "touches_only gid shape_keys (add_node G gid []) G'"
    unfolding G'
    by (rule touches_only_trans [OF graphics_touches_shape [OF t] shape_tail_touches])
  then have "grows {gid} shape_keys G G'"
    by (rule grows_add_node_touches) simp
  moreover have "node_attr G' gid ''x'' = Some (Str cx)" "node_attr G' gid ''y'' = Some (Str cy)"
    unfolding G' using xy by (simp_all add: shape_tail_xy)
  ultimately show ?thesis using gid c by blast
qed

lemma parse_shapes_body_Return:
  "parse_shapes_body G nd = Return (Graph G') \<Longrightarrow> has_node G' ''Error''"
  by (auto simp: parse_shapes_body_def Let_def split: option.splits sum.splits gval.splits if_splits)

lemma GraphIds_Nil [simp]: "GraphIds [] = {}"
  by (simp add: GraphIds_def)

lemma GraphIds_Cons:
  "nd ''GraphId'' = Some n \<Longrightarrow> GraphIds (nd # nds) = {n} \<union> GraphIds nds"
  by (auto simp: GraphIds_def)

lemma GraphIds_append: "GraphIds (xs @ ys) = GraphIds xs \<union> GraphIds ys"
  by (auto simp: GraphIds_def)

lemma grows_node_ids: "grows N K G G' \<Longrightarrow> node_ids G' = N \<union> node_ids G"
  by (simp add: grows_def)

lemma grows_mono:
  "grows N K G G' \<Longrightarrow> K \<subseteq> K' \<Longrightarrow> grows N K' G G'"
  unfolding grows_def by (intro conjI) auto

lemma for_each_Return:
  "for_each body G xs = Return r \<Longrightarrow> \<exists>G1 x. x \<in> set xs \<and> body G1 x = Return r"
proof (induction xs arbitrary: G)
  case Nil
  then show ?case by simp
next
  case (Cons a xs)
  show ?case
  proof (cases "body G a")
    case (Raise e)
    with Cons.prems show ?thesis by simp
  next
    case (Return r')
    with Cons.prems show ?thesis by auto
  next
    case (Next G1)
    with Cons.prems have "for_each body G1 xs = Return r" by simp
    from Cons.IH [OF this] show ?thesis by auto
  qed
qed

lemma for_each_Next_grows:
  assumes step: "\<And>G x G'. body G x = Next G' \<Longrightarrow>
                   \<exists>n. f x ''GraphId'' = Some n \<and> grows {n} K G G'"
    and run: "for_each body G xs = Next G'"
  shows "grows (GraphIds (map f xs)) K G G' \<and> (\<forall>x \<in> set xs. f x ''GraphId'' \<noteq> None)"
  using run
proof (induction xs arbitrary: G)
  case Nil
  then show ?case by (simp add: grows_refl)
next
  case (Cons x xs)
  from Cons.prems obtain G1 where b: "body G x = Next G1"
    and r: "for_each body G1 xs = Next G'"
    by (auto split: flow.splits)
  from step [OF b] obtain n where n: "f x ''GraphId'' = Some n" and g: "grows {n} K G G1"
    by blast
  from Cons.IH [OF r] have g2: "grows (GraphIds (map f xs)) K G1 G'"
    and a: "\<forall>x \<in> set xs. f x ''GraphId'' \<noteq> None" by auto
  from grows_trans [OF g g2] n a show ?case
    by (simp add: GraphIds_Cons)
qed

lemma find_parent_touches:
  "touches_only gid {''parent''} G (find_parent G gid r)"
proof -
  have "touches_only gid {''parent''} G0 G1 \<Longrightarrow>
        touches_only gid {''parent''} G0
          (foldl (\<lambda>G' (n, a). if a ''group_id'' = Some (Str r)
                               then add_node_parent G' gid n else G') G1 ns)"
    for G0 G1 ns
    by (induction ns arbitrary: G1)
       (auto simp: interface_defs intro!: touches_only_set split: prod.splits)
  from this [OF touches_only_refl] show ?thesis by (simp add: find_parent_def)
qed

lemma find_parent_fold_unique:
  assumes "\<forall>(n, a) \<in> set ns. (a ''group_id'' = Some (Str r)) = (n = g)"
    and "has_node G gid"
  shows "node_attr (foldl (\<lambda>G' (n, a). if a ''group_id'' = Some (Str r)
                               then add_node_parent G' gid n else G') G ns) gid ''parent'' =
         (if g \<in> fst ` set ns then Some (Str g) else node_attr G gid ''parent'')"
  using assms
proof (induction ns arbitrary: G)
  case Nil
  then show ?case by simp
next
  case (Cons p ns)
  obtain n a where p: "p = (n, a)" by (cases p)
  show ?case
  proof (cases "n = g")
    case True
    with Cons.prems p have a: "a ''group_id'' = Some (Str r)" by auto
    have h: "has_node (add_node_parent G gid g) gid"
      using Cons.prems(2) by (simp add: interface_defs)
    have "\<forall>(n, a) \<in> set ns. (a ''group_id'' = Some (Str r)) = (n = g)"
      using Cons.prems(1) by auto
    from Cons.IH [OF this h] Cons.prems(2) p a True show ?thesis
      by (simp add: interface_defs node_attr_set_node_property)
  next
    case False
    with Cons.prems p have a: "a ''group_id'' \<noteq> Some (Str r)" by auto
    have "\<forall>(n, a) \<in> set ns. (a ''group_id'' = Some (Str r)) = (n = g)"
      using Cons.prems(1) by auto
    from Cons.IH [OF this Cons.prems(2)] p a False show ?thesis by auto
  qed
qed

lemma find_parent_unique:
  assumes d: "distinct (map fst (node G))" and h: "has_node G gid"
    and g: "node_attr G g ''group_id'' = Some (Str r)"
    and u: "\<forall>m. m \<noteq> g \<longrightarrow> node_attr G m ''group_id'' \<noteq> Some (Str r)"
  shows "node_attr (find_parent G gid r) gid ''parent'' = Some (Str g)"
proof -
  have at: "a k = node_attr G n k" if "(n, a) \<in> set (node G)" for n a k
    using d that by (simp add: node_attr_def)
  have 1: "\<forall>(n, a) \<in> set (node G). (a ''group_id'' = Some (Str r)) = (n = g)"
    using at g u by fastforce
  have 2: "g \<in> fst ` set (node G)"
    using g by (auto simp: node_attr_def split: option.splits dest: map_of_SomeD intro: rev_image_eqI)
  from find_parent_fold_unique [OF 1 h] 2 show ?thesis
    by (simp add: find_parent_def)
qed

lemma update_node_graphics_touches:
  assumes "nd ''GraphId'' = Some gid" and "update_node_graphics G node_id nd = Inr (Graph G')"
  shows "touches_only gid graphics_keys G G'"
proof (cases "nd ''CenterX'' = None \<or> nd ''CenterY'' = None")
  case True
  from update_node_graphics_ErrorDict [OF assms(1) True] assms(2) show ?thesis by simp
next
  case False
  then obtain cx cy where "nd ''CenterX'' = Some cx" "nd ''CenterY'' = Some cy" by auto
  from update_node_graphics_Graph [OF assms(1) this, of G node_id] assms(2)
  show ?thesis by (auto simp: graphics_keys_def)
qed

lemma datanode_defaults_touches:
  "touches_only gid style_keys G
     (add_node_background_opacity (add_node_color G gid ''white'') gid 0)"
  by (auto simp: interface_defs style_keys_def intro!: touches_only_set touches_only_refl)

lemma parse_datanodes_body_Next:
  assumes "parse_datanodes_body G nd = Next G'"
  shows "\<exists>gid cx cy G3. nd ''GraphId'' = Some gid \<and> nd ''CenterX'' = Some cx \<and>
           nd ''CenterY'' = Some cy \<and> grows {gid} datanode_keys G G' \<and>
           node_attr G' gid ''x'' = Some (Str cx) \<and> node_attr G' gid ''y'' = Some (Str cy) \<and>
           grows {gid} datanode_style_keys G G3 \<and>
           G' = (case nd ''GroupRef'' of None \<Rightarrow> G3 | Some r \<Rightarrow> find_parent G3 gid r)"
proof -
  define st where "st = [(''shape'', Str ''rectangle''), (''border_width'', Num 2)]"
  from assms obtain gid where gid: "nd ''GraphId'' = Some gid"
    by (auto simp: parse_datanodes_body_def split: option.splits)
  have "\<exists>cx cy. nd ''CenterX'' = Some cx \<and> nd ''CenterY'' = Some cy"
  proof (rule ccontr)
    assume "\<not> ?thesis"
    then have "nd ''CenterX'' = None \<or> nd ''CenterY'' = None" by auto
    from update_node_graphics_ErrorDict [OF gid this] assms gid show False
      by (simp add: parse_datanodes_body_def)
  qed
  then obtain cx cy where c: "nd ''CenterX'' = Some cx" "nd ''CenterY'' = Some cy" by blast
  from update_node_graphics_Graph [OF gid c, of "add_node G gid st" gid]
  obtain G1 where G1: "update_node_graphics (add_node G gid st) gid nd = Inr (Graph G1)"
    and t: "touches_only gid (insert ''x'' (insert ''y'' style_keys)) (add_node G gid st) G1"
    and xy: "node_attr G1 gid ''x'' = Some (Str cx)" "node_attr G1 gid ''y'' = Some (Str cy)"
    by auto
  define G3 where "G3 = add_node_background_opacity (add_node_color G1 gid ''white'') gid 0"
  have t13: "touches_only gid style_keys G1 G3"
    unfolding G3_def by (rule datanode_defaults_touches)
  from assms gid G1 have
    G': "G' = (case nd ''GroupRef'' of None \<Rightarrow> G3 | Some r \<Rightarrow> find_parent G3 gid r)"
    by (auto simp: parse_datanodes_body_def Let_def st_def G3_def split: option.splits if_splits)
  have t3': "touches_only gid {''parent''} G3 G'"
    unfolding G' by (auto split: option.splits intro: touches_only_refl find_parent_touches)
  have t03: "touches_only gid datanode_style_keys (add_node G gid st) G3"
    by (rule touches_only_trans [OF touches_only_mono [OF t] touches_only_mono [OF t13]])
       (auto simp: datanode_style_keys_def graphics_keys_def)
  have g3: "grows {gid} datanode_style_keys G G3"
    by (rule grows_add_node_touches [OF t03])
       (simp add: st_def datanode_style_keys_def graphics_keys_def style_keys_def)
  have t0': "touches_only gid datanode_keys (add_node G gid st) G'"
    by (rule touches_only_trans [OF touches_only_mono [OF t03] touches_only_mono [OF t3']])
       (auto simp: datanode_keys_def)
  have g': "grows {gid} datanode_keys G G'"
    by (rule grows_add_node_touches [OF t0'])
       (simp add: st_def datanode_keys_def datanode_style_keys_def graphics_keys_def
                  style_keys_def)
  have "node_attr G' gid ''x'' = node_attr G1 gid ''x''"
       "node_attr G' gid ''y'' = node_attr G1 gid ''y''"
    using t3' t13 by (simp_all add: touches_only_def style_keys_def)
  with xy gid c g' g3 G' show ?thesis by auto
qed

lemma parse_datanodes_body_Return:
  "parse_datanodes_body G nd = Return (Graph G') \<Longrightarrow> has_node G' ''Error''"
  by (auto simp: parse_datanodes_body_def Let_def
           split: option.splits sum.splits gval.splits if_splits)

lemma parse_labels_body_Next:
  assumes "parse_labels_body G nd = Next G'"
  shows "\<exists>gid. nd ''GraphId'' = Some gid \<and> grows {gid} graphics_keys G G'"
proof -
  from assms obtain gid where gid: "nd ''GraphId'' = Some gid"
    by (auto simp: parse_labels_body_def split: option.splits)
  let ?G1 = "add_node G gid [(''border_color'', Str ''#FFFFFF'')]"
  from assms gid obtain r where r: "update_node_graphics ?G1 gid nd = Inr r"
    and G': "G' = (case r of Graph G'' \<Rightarrow> G'' | ErrorDict msg \<Rightarrow> ?G1)"
    by (auto simp: parse_labels_body_def Let_def split: sum.splits if_splits)
  have "touches_only gid graphics_keys ?G1 G'"
  proof (cases r)
    case (ErrorDict msg)
    with G' show ?thesis by (simp add: touches_only_refl)
  next
    case (Graph G'')
    with update_node_graphics_touches
           [where nd = nd and gid = gid and G = ?G1 and node_id = gid and G' = G'']
         gid r G'
    show ?thesis by simp
  qed
  then have "grows {gid} graphics_keys G G'"
    by (rule grows_add_node_touches)
       (simp add: graphics_keys_def style_keys_def)
  with gid show ?thesis by blast
qed

lemma parse_labels_body_Return:
  "parse_labels_body G nd = Return (Graph G') \<Longrightarrow> has_node G' ''Error''"
  by (auto simp: parse_labels_body_def Let_def
           split: option.splits sum.splits gval.splits if_splits)

lemma parse_groups_body_Next:
  assumes "parse_groups_body G g = Next G'"
  shows "\<exists>gid r. attrib g ''GraphId'' = Some gid \<and> attrib g ''GroupId'' = Some r \<and>
           grows {gid} group_keys G G' \<and> node_attr G' gid ''group_id'' = Some (Str r)"
proof -
  from assms obtain gid r where gid: "attrib g ''GraphId'' = Some gid"
    and r: "attrib g ''GroupId'' = Some r"
    by (auto simp: parse_groups_body_def split: option.splits)
  from assms gid r have G': "G' = add_node_border_color
      (add_node_color (add_node_group_id (add_node G gid []) gid r) gid ''white'') gid ''black''"
    by (simp add: parse_groups_body_def)
  have "touches_only gid group_keys (add_node G gid []) G'"
    unfolding G' interface_defs
    by (intro touches_only_set touches_only_refl) (simp_all add: group_keys_def)
  then have "grows {gid} group_keys G G'"
    by (rule grows_add_node_touches) simp
  moreover have "node_attr G' gid ''group_id'' = Some (Str r)"
    unfolding G' by (simp add: interface_defs node_attr_set_node_property)
  ultimately show ?thesis using gid r by blast
qed

lemma parse_groups_body_Return:
  "parse_groups_body G g \<noteq> Return (Graph G')"
  by (auto simp: parse_groups_body_def split: option.splits)

end
